theory Spec2Isabelle
  imports Complex_Main "HOL-Library.AList"
begin

section \<open>Python values read from JSON\<close>

text \<open>
  \<open>json.loads\<close> yields \<open>None\<close>, \<open>bool\<close>, \<open>int\<close>, \<open>float\<close>, \<open>str\<close>, \<open>list\<close> and
  \<open>dict\<close> values. A \<open>dict\<close> is kept as the list of its items in insertion order (keys are
  distinct in a real dict). A float is kept by its numeric value; only its truth value and
  its equality with other numbers are used by the services.
\<close>

datatype pyfloat = Finite rat | NegZero | PosInf | NegInf | NaN

datatype json =
    JNull
  | JBool bool
  | JInt int
  | JFloat pyfloat
  | JStr string
  | JArr "json list"
  | JObj "(string \<times> json) list"

datatype py_error =
    JSONDecodeError
  | UnicodeDecodeError
  | RecursionError
  | AttributeError
  | TypeError
  | KeyError
  | ValueError
  | OverflowError
  | SystemExit

text \<open>\<open>d.get(k)\<close>: the value stored under \<open>k\<close>, \<open>None\<close> when the key is absent.\<close>

definition dict_get :: "(string \<times> json) list \<Rightarrow> string \<Rightarrow> json" where
  "dict_get d k = (case map_of d k of None \<Rightarrow> JNull | Some v \<Rightarrow> v)"

text \<open>Truth value of a Python object, as tested by \<open>not x\<close> and \<open>if x\<close>.\<close>

fun truthy :: "json \<Rightarrow> bool" where
  "truthy JNull = False"
| "truthy (JBool b) = b"
| "truthy (JInt i) = (i \<noteq> 0)"
| "truthy (JFloat (Finite r)) = (r \<noteq> 0)"
| "truthy (JFloat NegZero) = False"
| "truthy (JFloat f) = True"
| "truthy (JStr s) = (s \<noteq> [])"
| "truthy (JArr xs) = (xs \<noteq> [])"
| "truthy (JObj d) = (d \<noteq> [])"

text \<open>
  \<open>isinstance(v, int)\<close> together with the integer value: \<open>bool\<close> is a subclass of \<open>int\<close>
  in Python, with \<open>True == 1\<close> and \<open>False == 0\<close>.
\<close>

fun as_int :: "json \<Rightarrow> int option" where
  "as_int (JInt i) = Some i"
| "as_int (JBool b) = Some (if b then 1 else 0)"
| "as_int v = None"

text \<open>
  Hashing and equality of Python objects used as set elements or dict keys: numbers of
  all three numeric types are equal when their values are, lists and dicts are unhashable
  (\<open>None\<close> here). \<open>json.loads\<close> returns one and the same NaN object for every \<open>NaN\<close>
  it reads, and a container looks an element up by identity before equality, so a NaN
  from one message is found again when it comes in another: it is a key of its own.
\<close>

datatype pykey = KNone | KStr string | KNum rat | KPosInf | KNegInf | KNaN

fun py_key :: "json \<Rightarrow> pykey option" where
  "py_key JNull = Some KNone"
| "py_key (JBool b) = Some (KNum (if b then 1 else 0))"
| "py_key (JInt i) = Some (KNum (of_int i))"
| "py_key (JFloat (Finite r)) = Some (KNum r)"
| "py_key (JFloat NegZero) = Some (KNum 0)"
| "py_key (JFloat PosInf) = Some KPosInf"
| "py_key (JFloat NegInf) = Some KNegInf"
| "py_key (JFloat NaN) = Some KNaN"
| "py_key (JStr s) = Some (KStr s)"
| "py_key (JArr xs) = None"
| "py_key (JObj d) = None"

text \<open>
  \<open>x in d\<close> for a dict \<open>d\<close> whose keys are all strings, together with \<open>d[x]\<close> when
  the key is there: \<open>TypeError\<close> on an unhashable \<open>x\<close>; a number or \<open>None\<close> equals no
  string.
\<close>

definition dict_find :: "(string \<rightharpoonup> int) \<Rightarrow> json \<Rightarrow> py_error + (string \<times> int) option" where
  "dict_find m v =
     (case py_key v of
        None \<Rightarrow> Inl TypeError
      | Some (KStr s) \<Rightarrow> Inr (case m s of None \<Rightarrow> None | Some n \<Rightarrow> Some (s, n))
      | Some k \<Rightarrow> Inr None)"

subsection \<open>Text of a value inside an f-string\<close>

function str_nat :: "nat \<Rightarrow> string" where
  "str_nat n =
     (if n < 10 then [''0123456789'' ! n]
      else str_nat (n div 10) @ [''0123456789'' ! (n mod 10)])"
  by pat_completeness auto
termination
  by (relation "measure id") auto

declare str_nat.simps [simp del]

definition str_int :: "int \<Rightarrow> string" where
  "str_int i = (if i < 0 then CHR ''-'' # str_nat (nat (- i)) else str_nat (nat i))"

text \<open>
  \<open>str(v)\<close>. The text of a float, a list or a dict is Python's \<open>repr\<close>, taken as the
  parameter \<open>repr\<close>.
\<close>

fun py_str :: "(json \<Rightarrow> string) \<Rightarrow> json \<Rightarrow> string" where
  "py_str repr JNull = ''None''"
| "py_str repr (JBool b) = (if b then ''True'' else ''False'')"
| "py_str repr (JInt i) = str_int i"
| "py_str repr (JStr s) = s"
| "py_str repr v = repr v"

text \<open>\<open>sep.join(xs)\<close>\<close>

fun join :: "string \<Rightarrow> string list \<Rightarrow> string" where
  "join sep [] = []"
| "join sep [x] = x"
| "join sep (x # y # ys) = x @ sep @ join sep (y # ys)"

section \<open>async-rabbitmq: InventoryService\<close>

text \<open>
  The module state: the \<open>inventory\<close> dict and the \<open>processed_orders\<close> set.
\<close>

record state =
  inventory :: "string \<rightharpoonup> int"
  processed_orders :: "pykey set"

text \<open>
  What the handler does on the channel, in order. A published body is either the inbound
  bytes unchanged or \<open>json.dumps\<close> of a value. Every publish uses \<open>delivery_mode=2\<close>.
  \<open>basic_publish\<close> and \<open>basic_ack\<close> are taken to return.
\<close>

datatype payload = Raw string | Dumps json

datatype action =
    Publish string string payload
  | Ack nat

record handled =
  state_after :: state
  channel_ops :: "action list"
  raised :: "py_error option"

definition EXCHANGE :: string where
  "EXCHANGE = ''order_events''"

text \<open>Lines 106-112: the names of the required fields that are missing.\<close>

definition missing_fields :: "(string \<times> json) list \<Rightarrow> string list" where
  "missing_fields d =
     (if \<not> truthy (dict_get d ''order_id'') then [''order_id''] else []) @
     (if \<not> truthy (dict_get d ''item'') then [''item''] else []) @
     (if dict_get d ''qty'' = JNull then [''qty''] else [])"

text \<open>Lines 117-125 and 131-139: route the decoded message to the dead-letter queue.\<close>

definition to_dead_letter :: "state \<Rightarrow> nat \<Rightarrow> (string \<times> json) list \<Rightarrow> string \<Rightarrow> handled" where
  "to_dead_letter s tag d reason =
     \<lparr>state_after = s,
      channel_ops =
        [Publish '''' ''dlq_queue'' (Dumps (JObj (AList.update ''error'' (JStr reason) d))),
         Ack tag],
      raised = None\<rparr>"

text \<open>Lines 151-165 and 170-184: publish \<open>InventoryFailed\<close>.\<close>

definition inventory_failed :: "state \<Rightarrow> nat \<Rightarrow> json \<Rightarrow> json \<Rightarrow> json \<Rightarrow> string \<Rightarrow> handled" where
  "inventory_failed s tag order_id item qty reason =
     \<lparr>state_after = s,
      channel_ops =
        [Publish EXCHANGE ''inventory.failed''
           (Dumps (JObj [(''order_id'', order_id), (''item'', item), (''qty'', qty),
                         (''status'', JStr ''FAILED''), (''reason'', JStr reason)])),
         Ack tag],
      raised = None\<rparr>"

text \<open>
  \<open>on_order_placed(ch, method, properties, body)\<close>, with \<open>tag = method.delivery_tag\<close>.
  \<open>loads\<close> is \<open>json.loads\<close>; only its \<open>JSONDecodeError\<close> is caught. A value that is not
  a dict has no \<open>get\<close> (\<open>AttributeError\<close>); an unhashable \<open>order_id\<close> or \<open>item\<close> makes
  \<open>in\<close> raise \<open>TypeError\<close>. An exception that leaves the handler is returned in \<open>raised\<close>.
  Logging is left out.
\<close>

definition on_order_placed ::
  "(string \<Rightarrow> py_error + json) \<Rightarrow> (json \<Rightarrow> string) \<Rightarrow> state \<Rightarrow> nat \<Rightarrow> string \<Rightarrow> handled" where
  "on_order_placed loads repr s tag body =
     (case loads body of
        Inl e \<Rightarrow>
          if e = JSONDecodeError
          then \<lparr>state_after = s,
                channel_ops = [Publish '''' ''dlq_queue'' (Raw body), Ack tag],
                raised = None\<rparr>
          else \<lparr>state_after = s, channel_ops = [], raised = Some e\<rparr>
      | Inr (JObj d) \<Rightarrow>
          let order_id = dict_get d ''order_id'';
              item = dict_get d ''item'';
              qty = dict_get d ''qty'';
              missing = missing_fields d;
              invalid_qty =
                ''Invalid qty: '' @ py_str repr qty @ '' (must be a positive integer)''
          in
          if missing \<noteq> [] then
            to_dead_letter s tag d (''Missing required field(s): '' @ join '', '' missing)
          else
            (case as_int qty of
               None \<Rightarrow> to_dead_letter s tag d invalid_qty
             | Some q \<Rightarrow>
                 if q \<le> 0 then to_dead_letter s tag d invalid_qty
                 else
                   (case py_key order_id of
                      None \<Rightarrow> \<lparr>state_after = s, channel_ops = [], raised = Some TypeError\<rparr>
                    | Some oid \<Rightarrow>
                        if oid \<in> processed_orders s
                        then \<lparr>state_after = s, channel_ops = [Ack tag], raised = None\<rparr>
                        else
                          (case dict_find (inventory s) item of
                             Inl e \<Rightarrow> \<lparr>state_after = s, channel_ops = [], raised = Some e\<rparr>
                           | Inr None \<Rightarrow>
                               inventory_failed s tag order_id item qty
                                 (''Item '' @ [CHR 0x27] @ py_str repr item @ [CHR 0x27]
                                   @ '' not found in inventory'')
                           | Inr (Some (name, available)) \<Rightarrow>
                               if available < q then
                                 inventory_failed s tag order_id item qty
                                   (''Insufficient stock for '' @ [CHR 0x27] @ py_str repr item
                                     @ [CHR 0x27] @ '': requested '' @ py_str repr qty
                                     @ '', available '' @ str_int available)
                               else
                                 \<lparr>state_after =
                                    s\<lparr>inventory := (inventory s)(name \<mapsto> available - q),
                                      processed_orders := insert oid (processed_orders s)\<rparr>,
                                  channel_ops =
                                    [Publish EXCHANGE ''inventory.reserved''
                                       (Dumps (JObj [(''order_id'', order_id), (''item'', item),
                                                     (''qty'', qty),
                                                     (''status'', JStr ''RESERVED'')])),
                                     Ack tag],
                                  raised = None\<rparr>)))
      | Inr v \<Rightarrow> \<lparr>state_after = s, channel_ops = [], raised = Some AttributeError\<rparr>)"

text \<open>
  The consumer loop of \<open>main\<close>: \<open>start_consuming\<close> calls the handler once per delivered
  message, one at a time (\<open>prefetch_count=1\<close>). An exception leaving the handler is caught
  by the loop, which reconnects; the module state is kept.
\<close>

fun start_consuming ::
  "(string \<Rightarrow> py_error + json) \<Rightarrow> (json \<Rightarrow> string) \<Rightarrow> state \<Rightarrow> (nat \<times> string) list \<Rightarrow> state" where
  "start_consuming loads repr s [] = s"
| "start_consuming loads repr s ((tag, body) # msgs) =
     start_consuming loads repr (state_after (on_order_placed loads repr s tag body)) msgs"


section \<open>async-rabbitmq: OrderService\<close>

text \<open>
  The \<open>try\<close> block of \<open>place_order\<close> connects, publishes and closes the connection; any
  \<open>Exception\<close> in it is caught. The broker either takes the message, or fails before the
  publish has happened, or fails in \<open>conn.close()\<close> after it; a failure carries \<open>str(e)\<close>.
  When the broker cannot be reached at all, \<open>get_connection\<close> ends its retries with
  \<open>sys.exit(1)\<close>: \<open>SystemExit\<close> is no \<open>Exception\<close>, so it is not caught and leaves the
  view function, the order being stored as PLACED.
\<close>

datatype broker =
    Delivered
  | FailedBeforePublish string
  | FailedOnClose string
  | Unreachable

record placed =
  orders_after :: "string \<rightharpoonup> (string \<times> json) list"
  published :: "action list"
  response :: "py_error + (nat \<times> json)"

text \<open>
  \<open>place_order()\<close> on the decoded request body \<open>data\<close> (\<open>request.get_json(force=True)\<close>),
  with \<open>uid = str(uuid.uuid4())\<close>. The response is the pair of status code and JSON body;
  an \<open>AttributeError\<close> (a body that is not a dict) or the \<open>SystemExit\<close> of
  \<open>get_connection\<close> leaves the view function.
\<close>

definition place_order ::
  "(string \<rightharpoonup> (string \<times> json) list) \<Rightarrow> string \<Rightarrow> broker \<Rightarrow> json \<Rightarrow> placed" where
  "place_order orders uid brk data =
     (case data of
        JObj d \<Rightarrow>
          let item = dict_get d ''item'';
              qty = dict_get d ''qty'';
              student_id = (case map_of d ''student_id'' of
                              None \<Rightarrow> JStr ''unknown'' | Some v \<Rightarrow> v)
          in
          if \<not> truthy item \<or> qty = JNull then
            \<lparr>orders_after = orders, published = [],
             response = Inr (400, JObj [(''error'', JStr ''item and qty are required'')])\<rparr>
          else
            let order = [(''order_id'', JStr uid), (''item'', item), (''qty'', qty),
                         (''student_id'', student_id), (''status'', JStr ''PLACED'')];
                sent = Publish EXCHANGE ''order.placed'' (Dumps (JObj order));
                publish_failed = (\<lambda>e.
                  (orders(uid \<mapsto> AList.update ''status'' (JStr ''PUBLISH_FAILED'') order),
                   Inr (500, JObj [(''order_id'', JStr uid),
                                   (''status'', JStr ''PUBLISH_FAILED''),
                                   (''error'', JStr e)])))
            in
            (case brk of
               Delivered \<Rightarrow>
                 \<lparr>orders_after = orders(uid \<mapsto> order), published = [sent],
                  response = Inr (201, JObj [(''order_id'', JStr uid),
                                             (''status'', JStr ''PLACED'')])\<rparr>
             | FailedBeforePublish e \<Rightarrow>
                 \<lparr>orders_after = fst (publish_failed e), published = [],
                  response = snd (publish_failed e)\<rparr>
             | FailedOnClose e \<Rightarrow>
                 \<lparr>orders_after = fst (publish_failed e), published = [sent],
                  response = snd (publish_failed e)\<rparr>
             | Unreachable \<Rightarrow>
                 \<lparr>orders_after = orders(uid \<mapsto> order), published = [],
                  response = Inl SystemExit\<rparr>)
      | _ \<Rightarrow> \<lparr>orders_after = orders, published = [], response = Inl AttributeError\<rparr>)"

section \<open>streaming-kafka: inventory consumer\<close>

text \<open>
  What the Python runtime supplies to one iteration of the loop: \<open>json.loads\<close> of the
  decoded bytes, \<open>int()\<close> of a string, \<open>str(e)\<close> of the exception raised, and
  \<open>raw.decode("utf-8", errors="replace")\<close>.
\<close>

record runtime =
  json_loads :: "string \<Rightarrow> py_error + json"
  int_of_str :: "string \<Rightarrow> int option"
  exc_str :: "py_error \<Rightarrow> string"
  decode_replace :: "string \<Rightarrow> string"

text \<open>\<open>int(v)\<close>: a float is truncated towards zero.\<close>

fun py_int :: "(string \<Rightarrow> int option) \<Rightarrow> json \<Rightarrow> py_error + int" where
  "py_int parse (JInt i) = Inr i"
| "py_int parse (JBool b) = Inr (if b then 1 else 0)"
| "py_int parse (JFloat (Finite r)) = Inr (if 0 \<le> r then \<lfloor>r\<rfloor> else \<lceil>r\<rceil>)"
| "py_int parse (JFloat NegZero) = Inr 0"
| "py_int parse (JFloat NaN) = Inl ValueError"
| "py_int parse (JFloat f) = Inl OverflowError"
| "py_int parse (JStr s) = (case parse s of None \<Rightarrow> Inl ValueError | Some i \<Rightarrow> Inr i)"
| "py_int parse v = Inl TypeError"

definition INVENTORY_TOPIC :: string where
  "INVENTORY_TOPIC = ''inventory-events''"

definition DLQ_TOPIC :: string where
  "DLQ_TOPIC = ''dlq-order-events''"

text \<open>
  The calls on the producer and the consumer, in order: \<open>produce(topic, key, value)\<close> with
  the dict that is dumped as the value, \<open>flush\<close>, and \<open>commit\<close> of the polled message.
  \<open>produce\<close> takes a string or \<open>None\<close> as its key and raises \<open>TypeError\<close> on any other
  value, before anything is sent; apart from that the calls are taken to return.
\<close>

datatype kafka_op = Produce string "json option" json | Flush | Commit

record polled =
  stock_after :: "string \<rightharpoonup> int"
  kafka_ops :: "kafka_op list"
  crashed :: "py_error option"

fun produce_key :: "json \<Rightarrow> py_error + json option" where
  "produce_key (JStr k) = Inr (Some (JStr k))"
| "produce_key JNull = Inr None"
| "produce_key v = Inl TypeError"

text \<open>
  \<open>to_dlq(producer, raw, err)\<close> followed by the commit of the \<open>except\<close> branch; \<open>stock\<close> is
  the stock at that moment.
\<close>

definition to_dlq ::
  "runtime \<Rightarrow> string \<Rightarrow> string \<Rightarrow> (string \<rightharpoonup> int) \<Rightarrow> string \<Rightarrow> string \<Rightarrow> polled" where
  "to_dlq rt event_id event_time stock raw err =
     \<lparr>stock_after = stock,
      kafka_ops =
        [Produce DLQ_TOPIC None
           (JObj [(''event_type'', JStr ''PoisonOrderEvent''), (''event_id'', JStr event_id),
                  (''error'', JStr err), (''raw'', JStr (decode_replace rt raw)),
                  (''event_time'', JStr event_time)]),
         Flush, Commit],
      crashed = None\<rparr>"

text \<open>
  Lines 90-93: produce the result \<open>out\<close> under the key \<open>order_id\<close>, flush and commit. A
  \<open>TypeError\<close> of \<open>produce\<close> is caught like every other exception of the \<open>try\<close> block: the
  message goes to \<open>to_dlq\<close>, with the stock as the reservation has already left it.
\<close>

definition produce_result ::
  "runtime \<Rightarrow> string \<Rightarrow> string \<Rightarrow> (string \<rightharpoonup> int) \<Rightarrow> string \<Rightarrow> json \<Rightarrow> json \<Rightarrow> polled" where
  "produce_result rt event_id event_time stock raw order_id out =
     (case produce_key order_id of
        Inl e \<Rightarrow> to_dlq rt event_id event_time stock raw (exc_str rt e)
      | Inr key \<Rightarrow>
          \<lparr>stock_after = stock,
           kafka_ops = [Produce INVENTORY_TOPIC key out, Flush, Commit],
           crashed = None\<rparr>)"

text \<open>
  One iteration of the \<open>while True\<close> loop of \<open>main\<close> for a polled message without error,
  \<open>value = msg.value()\<close> (\<open>None\<close> for a message without a value), \<open>event_id\<close> the fresh
  uuid and \<open>event_time = now_iso()\<close>. Every exception of the \<open>try\<close> block goes to \<open>to_dlq\<close>;
  a message without a value makes \<open>raw.decode\<close> raise again inside \<open>to_dlq\<close>, which ends
  the loop.
\<close>

definition main_iteration ::
  "runtime \<Rightarrow> string \<Rightarrow> string \<Rightarrow> (string \<rightharpoonup> int) \<Rightarrow> string option \<Rightarrow> polled" where
  "main_iteration rt event_id event_time stock val =
     (case val of
        None \<Rightarrow> \<lparr>stock_after = stock, kafka_ops = [], crashed = Some AttributeError\<rparr>
      | Some raw \<Rightarrow>
          let dlq = (\<lambda>e. to_dlq rt event_id event_time stock raw (exc_str rt e)) in
          (case json_loads rt raw of
             Inl e \<Rightarrow> dlq e
           | Inr (JObj event) \<Rightarrow>
               if dict_get event ''event_type'' \<noteq> JStr ''OrderPlaced'' then
                 to_dlq rt event_id event_time stock raw ''unexpected event_type''
               else
                 (case (map_of event ''order_id'', map_of event ''item_id'',
                        map_of event ''qty'') of
                    (Some order_id, Some item_id, Some qv) \<Rightarrow>
                      (case py_int (int_of_str rt) qv of
                         Inl e \<Rightarrow> dlq e
                       | Inr qty \<Rightarrow>
                           let failed =
                             JObj [(''event_type'', JStr ''InventoryFailed''),
                                   (''event_id'', JStr event_id),
                                   (''order_id'', order_id),
                                   (''item_id'', item_id),
                                   (''qty'', JInt qty),
                                   (''status'', JStr ''failed''),
                                   (''reason'', JStr ''out_of_stock''),
                                   (''event_time'', JStr event_time)];
                               reserved =
                             JObj [(''event_type'', JStr ''InventoryReserved''),
                                   (''event_id'', JStr event_id),
                                   (''order_id'', order_id),
                                   (''item_id'', item_id),
                                   (''qty'', JInt qty),
                                   (''status'', JStr ''reserved''),
                                   (''event_time'', JStr event_time)]
                           in
                           (case dict_find stock item_id of
                              Inl e \<Rightarrow> dlq e
                            | Inr None \<Rightarrow>
                                if 0 \<ge> qty then dlq KeyError
                                else produce_result rt event_id event_time stock raw
                                       order_id failed
                            | Inr (Some (name, n)) \<Rightarrow>
                                if n \<ge> qty then
                                  produce_result rt event_id event_time
                                    (stock(name \<mapsto> n - qty)) raw order_id reserved
                                else
                                  produce_result rt event_id event_time stock raw
                                    order_id failed))
                  | _ \<Rightarrow> dlq KeyError)
           | Inr v \<Rightarrow> dlq AttributeError))"

section \<open>The paths through the handler\<close>

lemma py_key_KStr: "py_key v = Some (KStr name) \<longleftrightarrow> v = JStr name"
  by (cases v rule: py_key.cases) auto

lemma dict_find_Some:
  "dict_find m v = Inr (Some (name, n)) \<longleftrightarrow> v = JStr name \<and> m name = Some n"
  by (auto simp: dict_find_def py_key_KStr split: option.splits pykey.splits)

lemma dict_find_Inl: "dict_find m v = Inl e \<longleftrightarrow> py_key v = None \<and> e = TypeError"
  by (auto simp: dict_find_def split: option.splits pykey.splits)

text \<open>
  Every call of the handler takes exactly one of eleven paths; each path fixes what the
  call returns.
\<close>

lemma on_order_placed_cases [case_names decode_error loads_raised not_dict missing invalid_qty
    unhashable_id duplicate unhashable_item unknown_item insufficient reserved]:
  assumes
    "loads body = Inl JSONDecodeError \<Longrightarrow>
       on_order_placed loads repr s tag body =
         \<lparr>state_after = s,
          channel_ops = [Publish '''' ''dlq_queue'' (Raw body), Ack tag],
          raised = None\<rparr> \<Longrightarrow> P"
    "\<And>e. loads body = Inl e \<Longrightarrow> e \<noteq> JSONDecodeError \<Longrightarrow>
       on_order_placed loads repr s tag body =
         \<lparr>state_after = s, channel_ops = [], raised = Some e\<rparr> \<Longrightarrow> P"
    "\<And>v. loads body = Inr v \<Longrightarrow> (\<And>d. v \<noteq> JObj d) \<Longrightarrow>
       on_order_placed loads repr s tag body =
         \<lparr>state_after = s, channel_ops = [], raised = Some AttributeError\<rparr> \<Longrightarrow> P"
    "\<And>d. loads body = Inr (JObj d) \<Longrightarrow> missing_fields d \<noteq> [] \<Longrightarrow>
       on_order_placed loads repr s tag body =
         to_dead_letter s tag d
           (''Missing required field(s): '' @ join '', '' (missing_fields d)) \<Longrightarrow> P"
    "\<And>d. loads body = Inr (JObj d) \<Longrightarrow> missing_fields d = [] \<Longrightarrow>
       (as_int (dict_get d ''qty'') = None \<or>
        (\<exists>q. as_int (dict_get d ''qty'') = Some q \<and> q \<le> 0)) \<Longrightarrow>
       on_order_placed loads repr s tag body =
         to_dead_letter s tag d
           (''Invalid qty: '' @ py_str repr (dict_get d ''qty'')
             @ '' (must be a positive integer)'') \<Longrightarrow> P"
    "\<And>d q. loads body = Inr (JObj d) \<Longrightarrow> missing_fields d = [] \<Longrightarrow>
       as_int (dict_get d ''qty'') = Some q \<Longrightarrow> 0 < q \<Longrightarrow>
       py_key (dict_get d ''order_id'') = None \<Longrightarrow>
       on_order_placed loads repr s tag body =
         \<lparr>state_after = s, channel_ops = [], raised = Some TypeError\<rparr> \<Longrightarrow> P"
    "\<And>d q oid. loads body = Inr (JObj d) \<Longrightarrow> missing_fields d = [] \<Longrightarrow>
       as_int (dict_get d ''qty'') = Some q \<Longrightarrow> 0 < q \<Longrightarrow>
       py_key (dict_get d ''order_id'') = Some oid \<Longrightarrow>
       oid \<in> processed_orders s \<Longrightarrow>
       on_order_placed loads repr s tag body =
         \<lparr>state_after = s, channel_ops = [Ack tag], raised = None\<rparr> \<Longrightarrow> P"
    "\<And>d q oid. loads body = Inr (JObj d) \<Longrightarrow> missing_fields d = [] \<Longrightarrow>
       as_int (dict_get d ''qty'') = Some q \<Longrightarrow> 0 < q \<Longrightarrow>
       py_key (dict_get d ''order_id'') = Some oid \<Longrightarrow>
       oid \<notin> processed_orders s \<Longrightarrow>
       py_key (dict_get d ''item'') = None \<Longrightarrow>
       on_order_placed loads repr s tag body =
         \<lparr>state_after = s, channel_ops = [], raised = Some TypeError\<rparr> \<Longrightarrow> P"
    "\<And>d q oid. loads body = Inr (JObj d) \<Longrightarrow> missing_fields d = [] \<Longrightarrow>
       as_int (dict_get d ''qty'') = Some q \<Longrightarrow> 0 < q \<Longrightarrow>
       py_key (dict_get d ''order_id'') = Some oid \<Longrightarrow>
       oid \<notin> processed_orders s \<Longrightarrow>
       dict_find (inventory s) (dict_get d ''item'') = Inr None \<Longrightarrow>
       on_order_placed loads repr s tag body =
         inventory_failed s tag (dict_get d ''order_id'') (dict_get d ''item'')
           (dict_get d ''qty'')
           (''Item '' @ [CHR 0x27] @ py_str repr (dict_get d ''item'') @ [CHR 0x27]
             @ '' not found in inventory'') \<Longrightarrow> P"
    "\<And>d q oid name available. loads body = Inr (JObj d) \<Longrightarrow> missing_fields d = [] \<Longrightarrow>
       as_int (dict_get d ''qty'') = Some q \<Longrightarrow> 0 < q \<Longrightarrow>
       py_key (dict_get d ''order_id'') = Some oid \<Longrightarrow>
       oid \<notin> processed_orders s \<Longrightarrow>
       dict_get d ''item'' = JStr name \<Longrightarrow> inventory s name = Some available \<Longrightarrow>
       available < q \<Longrightarrow>
       on_order_placed loads repr s tag body =
         inventory_failed s tag (dict_get d ''order_id'') (dict_get d ''item'')
           (dict_get d ''qty'')
           (''Insufficient stock for '' @ [CHR 0x27] @ name @ [CHR 0x27]
             @ '': requested '' @ py_str repr (dict_get d ''qty'')
             @ '', available '' @ str_int available) \<Longrightarrow> P"
    "\<And>d q oid name available. loads body = Inr (JObj d) \<Longrightarrow> missing_fields d = [] \<Longrightarrow>
       as_int (dict_get d ''qty'') = Some q \<Longrightarrow> 0 < q \<Longrightarrow>
       py_key (dict_get d ''order_id'') = Some oid \<Longrightarrow>
       oid \<notin> processed_orders s \<Longrightarrow>
       dict_get d ''item'' = JStr name \<Longrightarrow> inventory s name = Some available \<Longrightarrow>
       q \<le> available \<Longrightarrow>
       on_order_placed loads repr s tag body =
         \<lparr>state_after =
            s\<lparr>inventory := (inventory s)(name \<mapsto> available - q),
              processed_orders := insert oid (processed_orders s)\<rparr>,
          channel_ops =
            [Publish EXCHANGE ''inventory.reserved''
               (Dumps (JObj [(''order_id'', dict_get d ''order_id''),
                             (''item'', dict_get d ''item''),
                             (''qty'', dict_get d ''qty''),
                             (''status'', JStr ''RESERVED'')])),
             Ack tag],
          raised = None\<rparr> \<Longrightarrow> P"
  shows P
proof (cases "loads body")
  case (Inl e)
  then show P
    using assms(1) assms(2)[of e] by (cases "e = JSONDecodeError") (simp_all add: on_order_placed_def)
next
  case (Inr v)
  show P
  proof (cases "\<exists>d. v = JObj d")
    case False
    then have "on_order_placed loads repr s tag body =
        \<lparr>state_after = s, channel_ops = [], raised = Some AttributeError\<rparr>"
      using Inr by (cases v) (simp_all add: on_order_placed_def)
    with False Inr show P using assms(3)[of v] by blast
  next
    case True
    then obtain d where d: "loads body = Inr (JObj d)" using Inr by auto
    note unfold = on_order_placed_def Let_def d
    show P
    proof (cases "missing_fields d = []")
      case False
      then have "on_order_placed loads repr s tag body =
          to_dead_letter s tag d
            (''Missing required field(s): '' @ join '', '' (missing_fields d))"
        by (simp add: unfold)
      then show P using assms(4)[OF d False] by blast
    next
      case nomiss: True
      show P
      proof (cases "as_int (dict_get d ''qty'')")
        case None
        then have "on_order_placed loads repr s tag body =
            to_dead_letter s tag d
              (''Invalid qty: '' @ py_str repr (dict_get d ''qty'')
                @ '' (must be a positive integer)'')"
          by (simp add: unfold nomiss)
        then show P using assms(5)[OF d nomiss] None by blast
      next
        case qty: (Some q)
        show P
        proof (cases "q \<le> 0")
          case True
          then have "on_order_placed loads repr s tag body =
              to_dead_letter s tag d
                (''Invalid qty: '' @ py_str repr (dict_get d ''qty'')
                  @ '' (must be a positive integer)'')"
            by (simp add: unfold nomiss qty)
          then show P using assms(5)[OF d nomiss] qty True by blast
        next
          case False
          then have qpos: "0 < q" by simp
          show P
          proof (cases "py_key (dict_get d ''order_id'')")
            case None
            then have "on_order_placed loads repr s tag body =
                \<lparr>state_after = s, channel_ops = [], raised = Some TypeError\<rparr>"
              using qpos by (simp add: unfold nomiss qty)
            then show P using assms(6)[OF d nomiss qty qpos None] by blast
          next
            case oid: (Some oid)
            show P
            proof (cases "oid \<in> processed_orders s")
              case True
              then have "on_order_placed loads repr s tag body =
                  \<lparr>state_after = s, channel_ops = [Ack tag], raised = None\<rparr>"
                using qpos by (simp add: unfold nomiss qty oid)
              then show P using assms(7)[OF d nomiss qty qpos oid] True by blast
            next
              case False
              then have fresh: "oid \<notin> processed_orders s" by blast
              note rest = assms(8-11)[OF d nomiss qty qpos oid fresh]
              show P
              proof (cases "dict_find (inventory s) (dict_get d ''item'')")
                case (Inl e)
                then have e: "py_key (dict_get d ''item'') = None" "e = TypeError"
                  by (simp_all add: dict_find_Inl)
                have "on_order_placed loads repr s tag body =
                    \<lparr>state_after = s, channel_ops = [], raised = Some TypeError\<rparr>"
                  using qpos e(2) by (simp add: unfold nomiss qty oid False Inl)
                then show P using rest(1)[OF e(1)] by blast
              next
                case found: (Inr found)
                show P
                proof (cases found)
                  case None
                  have "on_order_placed loads repr s tag body =
                      inventory_failed s tag (dict_get d ''order_id'') (dict_get d ''item'')
                        (dict_get d ''qty'')
                        (''Item '' @ [CHR 0x27] @ py_str repr (dict_get d ''item'') @ [CHR 0x27]
                          @ '' not found in inventory'')"
                    using qpos by (simp add: unfold nomiss qty oid False found None)
                  then show P using rest(2) found None by blast
                next
                  case (Some na)
                  obtain name available where na: "na = (name, available)" by (cases na)
                  with found Some
                  have item: "dict_get d ''item'' = JStr name" "inventory s name = Some available"
                    by (simp_all add: dict_find_Some)
                  have find: "dict_find (inventory s) (JStr name) = Inr (Some (name, available))"
                    using found Some na item(1) by simp
                  show P
                  proof (cases "available < q")
                    case True
                    have "on_order_placed loads repr s tag body =
                        inventory_failed s tag (dict_get d ''order_id'') (dict_get d ''item'')
                          (dict_get d ''qty'')
                          (''Insufficient stock for '' @ [CHR 0x27] @ name @ [CHR 0x27]
                            @ '': requested '' @ py_str repr (dict_get d ''qty'')
                            @ '', available '' @ str_int available)"
                      using qpos True by (simp add: unfold nomiss qty oid False item(1) find)
                    then show P using rest(3)[OF item True] by blast
                  next
                    case notless: False
                    then have enough: "q \<le> available" by simp
                    have "on_order_placed loads repr s tag body =
                        \<lparr>state_after =
                           s\<lparr>inventory := (inventory s)(name \<mapsto> available - q),
                             processed_orders := insert oid (processed_orders s)\<rparr>,
                         channel_ops =
                           [Publish EXCHANGE ''inventory.reserved''
                              (Dumps (JObj [(''order_id'', dict_get d ''order_id''),
                                            (''item'', dict_get d ''item''),
                                            (''qty'', dict_get d ''qty''),
                                            (''status'', JStr ''RESERVED'')])),
                            Ack tag],
                         raised = None\<rparr>"
                      using qpos notless by (simp add: unfold nomiss qty oid False item(1) find)
                    then show P using rest(4)[OF item enough] by blast
                  qed
                qed
              qed
            qed
          qed
        qed
      qed
    qed
  qed
qed

lemma missing_fields_filter:
  "missing_fields d =
     filter (\<lambda>f. f = ''order_id'' \<and> \<not> truthy (dict_get d ''order_id'')
                \<or> f = ''item'' \<and> \<not> truthy (dict_get d ''item'')
                \<or> f = ''qty'' \<and> dict_get d ''qty'' = JNull)
       [''order_id'', ''item'', ''qty'']"
  by (simp add: missing_fields_def)

text \<open>A well-formed OrderEvent: string order_id and item, both non-empty, integer qty > 0.\<close>

lemma well_formed_path:
  assumes "loads body = Inr (JObj d)"
    and "dict_get d ''order_id'' = JStr oid" and "oid \<noteq> []"
    and "dict_get d ''item'' = JStr name" and "name \<noteq> []"
    and "dict_get d ''qty'' = JInt q" and "0 < q"
  shows "on_order_placed loads repr s tag body =
    (if KStr oid \<in> processed_orders s
     then \<lparr>state_after = s, channel_ops = [Ack tag], raised = None\<rparr>
     else case inventory s name of
       None \<Rightarrow>
         inventory_failed s tag (JStr oid) (JStr name) (JInt q)
           (''Item '' @ [CHR 0x27] @ name @ [CHR 0x27] @ '' not found in inventory'')
     | Some available \<Rightarrow>
         if available < q then
           inventory_failed s tag (JStr oid) (JStr name) (JInt q)
             (''Insufficient stock for '' @ [CHR 0x27] @ name @ [CHR 0x27]
               @ '': requested '' @ str_int q @ '', available '' @ str_int available)
         else
           \<lparr>state_after =
              s\<lparr>inventory := (inventory s)(name \<mapsto> available - q),
                processed_orders := insert (KStr oid) (processed_orders s)\<rparr>,
            channel_ops =
              [Publish EXCHANGE ''inventory.reserved''
                 (Dumps (JObj [(''order_id'', JStr oid), (''item'', JStr name),
                               (''qty'', JInt q), (''status'', JStr ''RESERVED'')])),
               Ack tag],
            raised = None\<rparr>)"
  using assms
  by (simp add: on_order_placed_def Let_def missing_fields_def dict_find_def
      split: option.splits)

lemma state_after_cases:
  "state_after (on_order_placed loads repr s tag body) = s \<or>
   (\<exists>d name available q oid.
      loads body = Inr (JObj d)
      \<and> as_int (dict_get d ''qty'') = Some q \<and> 0 < q
      \<and> py_key (dict_get d ''order_id'') = Some oid
      \<and> dict_get d ''item'' = JStr name \<and> inventory s name = Some available
      \<and> q \<le> available
      \<and> state_after (on_order_placed loads repr s tag body) =
           s\<lparr>inventory := (inventory s)(name \<mapsto> available - q),
             processed_orders := insert oid (processed_orders s)\<rparr>
      \<and> channel_ops (on_order_placed loads repr s tag body) =
           [Publish EXCHANGE ''inventory.reserved''
              (Dumps (JObj [(''order_id'', dict_get d ''order_id''),
                            (''item'', dict_get d ''item''),
                            (''qty'', dict_get d ''qty''),
                            (''status'', JStr ''RESERVED'')])),
            Ack tag])"
proof (cases rule: on_order_placed_cases[of loads body repr s tag])
  case (reserved d q oid name available)
  then show ?thesis by auto
qed (simp_all add: to_dead_letter_def inventory_failed_def)

lemma step_non_negative:
  assumes "\<forall>i n. inventory s i = Some n \<longrightarrow> 0 \<le> n"
  shows "\<forall>i n. inventory (state_after (on_order_placed loads repr s tag body)) i = Some n
            \<longrightarrow> 0 \<le> n"
  using state_after_cases[of loads repr s tag body] assms
  by (auto split: if_splits)

lemma start_consuming_non_negative:
  "\<forall>i n. inventory s i = Some n \<longrightarrow> 0 \<le> n \<Longrightarrow>
   \<forall>i n. inventory (start_consuming loads repr s msgs) i = Some n \<longrightarrow> 0 \<le> n"
proof (induction msgs arbitrary: s)
  case Nil
  then show ?case by simp
next
  case (Cons m msgs)
  obtain tag body where m: "m = (tag, body)" by (cases m)
  show ?case
    unfolding m start_consuming.simps
    by (rule Cons.IH) (rule step_non_negative[OF Cons.prems])
qed

lemma dlq_publish_cases:
  assumes "Publish '''' ''dlq_queue'' p \<in> set (channel_ops (on_order_placed loads repr s tag body))"
  shows "state_after (on_order_placed loads repr s tag body) = s \<and>
    ((loads body = Inl JSONDecodeError \<and> p = Raw body)
     \<or> (\<exists>d. loads body = Inr (JObj d) \<and> missing_fields d \<noteq> []
           \<and> p = Dumps (JObj (AList.update ''error''
                 (JStr (''Missing required field(s): '' @ join '', '' (missing_fields d))) d)))
     \<or> (\<exists>d. loads body = Inr (JObj d) \<and> missing_fields d = []
           \<and> (as_int (dict_get d ''qty'') = None
                \<or> (\<exists>q. as_int (dict_get d ''qty'') = Some q \<and> q \<le> 0))
           \<and> p = Dumps (JObj (AList.update ''error''
                 (JStr (''Invalid qty: '' @ py_str repr (dict_get d ''qty'')
                         @ '' (must be a positive integer)'')) d))))"
  using assms
proof (cases rule: on_order_placed_cases[of loads body repr s tag])
  case decode_error
  with assms show ?thesis by simp
next
  case (missing d)
  with assms show ?thesis by (simp add: to_dead_letter_def)
next
  case (invalid_qty d)
  with assms show ?thesis by (simp add: to_dead_letter_def)
qed (simp_all add: inventory_failed_def EXCHANGE_def)

text \<open>
  On every path that returns, the handler publishes once and then acknowledges, or only
  acknowledges a duplicate; on a path that raises it does neither.
\<close>

lemma channel_ops_cases:
  "(raised (on_order_placed loads repr s tag body) = None
      \<and> (\<exists>ex rk p. channel_ops (on_order_placed loads repr s tag body) = [Publish ex rk p, Ack tag]
            \<and> (ex = '''' \<and> rk = ''dlq_queue'' \<or> ex = EXCHANGE \<and> rk = ''inventory.failed''
                \<or> ex = EXCHANGE \<and> rk = ''inventory.reserved'')))
   \<or> (raised (on_order_placed loads repr s tag body) = None
      \<and> channel_ops (on_order_placed loads repr s tag body) = [Ack tag]
      \<and> (\<exists>d oid. loads body = Inr (JObj d) \<and> py_key (dict_get d ''order_id'') = Some oid
            \<and> oid \<in> processed_orders s))
   \<or> (raised (on_order_placed loads repr s tag body) \<noteq> None
      \<and> channel_ops (on_order_placed loads repr s tag body) = [])"
proof (cases rule: on_order_placed_cases[of loads body repr s tag])
  case (duplicate d q oid)
  then show ?thesis by auto
qed (simp_all add: to_dead_letter_def inventory_failed_def)

text \<open>The paths through one iteration of the Kafka consumer.\<close>

lemma produce_result_cases:
  "\<exists>t k v. produce_result rt event_id event_time stock raw order_id out =
     \<lparr>stock_after = stock, kafka_ops = [Produce t k v, Flush, Commit], crashed = None\<rparr>"
  by (cases "produce_key order_id") (simp_all add: produce_result_def to_dlq_def)

lemma main_iteration_dict:
  assumes "json_loads rt raw = Inr (JObj event)"
  shows "(\<exists>t k v. main_iteration rt event_id event_time stock (Some raw) =
          \<lparr>stock_after = stock, kafka_ops = [Produce t k v, Flush, Commit], crashed = None\<rparr>)
   \<or> (\<exists>name n qty t k v.
          map_of event ''item_id'' = Some (JStr name)
          \<and> stock name = Some n \<and> qty \<le> n
          \<and> main_iteration rt event_id event_time stock (Some raw) =
              \<lparr>stock_after = stock(name \<mapsto> n - qty),
               kafka_ops = [Produce t k v, Flush, Commit], crashed = None\<rparr>)"
proof -
  let ?r = "main_iteration rt event_id event_time stock (Some raw)"
  let ?same = "\<exists>t k v. ?r =
      \<lparr>stock_after = stock, kafka_ops = [Produce t k v, Flush, Commit], crashed = None\<rparr>"
  have dlq: "?r = to_dlq rt event_id event_time stock raw err \<Longrightarrow> ?same" for err
    by (simp add: to_dlq_def)
  have res: "?r = produce_result rt event_id event_time stock raw order_id out \<Longrightarrow> ?same"
    for order_id out
    using produce_result_cases[of rt event_id event_time stock raw order_id out] by simp
  note unfold = main_iteration_def Let_def assms
  show ?thesis
  proof (cases "dict_get event ''event_type'' \<noteq> JStr ''OrderPlaced''")
    case True
    then have "?r = to_dlq rt event_id event_time stock raw ''unexpected event_type''"
      by (simp add: unfold)
    then show ?thesis using dlq by blast
  next
    case etype: False
    show ?thesis
    proof (cases "\<exists>order_id item_id qv. map_of event ''order_id'' = Some order_id
        \<and> map_of event ''item_id'' = Some item_id \<and> map_of event ''qty'' = Some qv")
      case False
      then have "?r = to_dlq rt event_id event_time stock raw (exc_str rt KeyError)"
        using etype by (auto simp: unfold split: option.splits)
      then show ?thesis using dlq by blast
    next
      case True
      then obtain order_id item_id qv where
        keys: "map_of event ''order_id'' = Some order_id"
          "map_of event ''item_id'' = Some item_id" "map_of event ''qty'' = Some qv"
        by blast
      show ?thesis
      proof (cases "py_int (int_of_str rt) qv")
        case (Inl e)
        then have "?r = to_dlq rt event_id event_time stock raw (exc_str rt e)"
          using etype keys by (simp add: unfold)
        then show ?thesis using dlq by blast
      next
        case qty: (Inr qty)
        show ?thesis
        proof (cases "dict_find stock item_id")
          case (Inl e)
          then have "?r = to_dlq rt event_id event_time stock raw (exc_str rt e)"
            using etype keys qty by (simp add: unfold)
          then show ?thesis using dlq by blast
        next
          case found: (Inr found)
          show ?thesis
          proof (cases found)
            case None
            then have "?r = to_dlq rt event_id event_time stock raw (exc_str rt KeyError)
                \<or> (\<exists>out. ?r = produce_result rt event_id event_time stock raw order_id out)"
              using etype keys qty found by (auto simp: unfold)
            then show ?thesis using dlq res by blast
          next
            case (Some na)
            obtain name n where na: "na = (name, n)" by (cases na)
            with found Some have item: "item_id = JStr name" "stock name = Some n"
              by (simp_all add: dict_find_Some)
            show ?thesis
            proof (cases "qty \<le> n")
              case False
              then have "\<exists>out. ?r = produce_result rt event_id event_time stock raw order_id out"
                using etype keys qty found Some na by (auto simp: unfold)
              then show ?thesis using res by blast
            next
              case True
              then have "\<exists>out. ?r = produce_result rt event_id event_time
                  (stock(name \<mapsto> n - qty)) raw order_id out"
                using etype keys qty found Some na by (auto simp: unfold)
              then obtain t k v where "?r =
                  \<lparr>stock_after = stock(name \<mapsto> n - qty),
                   kafka_ops = [Produce t k v, Flush, Commit], crashed = None\<rparr>"
                using produce_result_cases[of rt event_id event_time
                    "stock(name \<mapsto> n - qty)" raw order_id]
                by force
              then show ?thesis using keys(2) item True by blast
            qed
          qed
        qed
      qed
    qed
  qed
qed

lemma main_iteration_cases:
  "(main_iteration rt event_id event_time stock val =
      \<lparr>stock_after = stock, kafka_ops = [], crashed = Some AttributeError\<rparr> \<and> val = None)
   \<or> (\<exists>t k v. main_iteration rt event_id event_time stock val =
          \<lparr>stock_after = stock, kafka_ops = [Produce t k v, Flush, Commit], crashed = None\<rparr>)
   \<or> (\<exists>raw event name n qty t k v.
          val = Some raw \<and> json_loads rt raw = Inr (JObj event)
          \<and> map_of event ''item_id'' = Some (JStr name)
          \<and> stock name = Some n \<and> qty \<le> n
          \<and> main_iteration rt event_id event_time stock val =
              \<lparr>stock_after = stock(name \<mapsto> n - qty),
               kafka_ops = [Produce t k v, Flush, Commit], crashed = None\<rparr>)"
proof (cases val)
  case None
  then show ?thesis by (simp add: main_iteration_def)
next
  case (Some raw)
  show ?thesis
  proof (cases "json_loads rt raw")
    case (Inl e)
    with Some show ?thesis by (simp add: main_iteration_def to_dlq_def)
  next
    case (Inr v)
    show ?thesis
    proof (cases "\<exists>event. v = JObj event")
      case False
      with Some Inr show ?thesis
        by (cases v) (simp_all add: main_iteration_def to_dlq_def)
    next
      case True
      then obtain event where ev: "json_loads rt raw = Inr (JObj event)"
        using Inr by auto
      show ?thesis
        using main_iteration_dict[OF ev, of event_id event_time stock] Some ev by blast
    qed
  qed
qed


text \<open>
  The front door: 400 exactly when \<open>item\<close> is missing or empty or \<open>qty\<close> is absent, and
  201 with the order published as it came when the broker takes it. An order so published
  whose \<open>qty\<close> is not a Python \<open>int\<close>, or is not positive, is dead-lettered by the quantity
  check of the inventory service.
\<close>

lemma place_order_presence_only:
  "((\<exists>b. response (place_order orders uid brk (JObj d)) = Inr (400, b)) \<longleftrightarrow>
      \<not> truthy (dict_get d ''item'') \<or> dict_get d ''qty'' = JNull)
   \<and> (truthy (dict_get d ''item'') \<and> dict_get d ''qty'' \<noteq> JNull \<longrightarrow>
        response (place_order orders uid Delivered (JObj d)) =
          Inr (201, JObj [(''order_id'', JStr uid), (''status'', JStr ''PLACED'')])
        \<and> (\<exists>student_id. published (place_order orders uid Delivered (JObj d)) =
          [Publish EXCHANGE ''order.placed''
             (Dumps (JObj [(''order_id'', JStr uid), (''item'', dict_get d ''item''),
                           (''qty'', dict_get d ''qty''), (''student_id'', student_id),
                           (''status'', JStr ''PLACED'')]))]))"
proof (intro conjI)
  show "(\<exists>b. response (place_order orders uid brk (JObj d)) = Inr (400, b)) \<longleftrightarrow>
      \<not> truthy (dict_get d ''item'') \<or> dict_get d ''qty'' = JNull"
    by (cases brk) (auto simp: place_order_def Let_def)
next
  show "truthy (dict_get d ''item'') \<and> dict_get d ''qty'' \<noteq> JNull \<longrightarrow>
        response (place_order orders uid Delivered (JObj d)) =
          Inr (201, JObj [(''order_id'', JStr uid), (''status'', JStr ''PLACED'')])
        \<and> (\<exists>student_id. published (place_order orders uid Delivered (JObj d)) =
          [Publish EXCHANGE ''order.placed''
             (Dumps (JObj [(''order_id'', JStr uid), (''item'', dict_get d ''item''),
                           (''qty'', dict_get d ''qty''), (''student_id'', student_id),
                           (''status'', JStr ''PLACED'')]))])"
    by (simp add: place_order_def Let_def)
qed

lemma placed_order_invalid_qty_dead_lettered:
  assumes "uid \<noteq> []" and "truthy item" and "qty \<noteq> JNull"
    and "as_int qty = None \<or> (\<exists>q. as_int qty = Some q \<and> q \<le> 0)"
    and "loads body = Inr (JObj [(''order_id'', JStr uid), (''item'', item), (''qty'', qty),
                                  (''student_id'', student_id), (''status'', JStr ''PLACED'')])"
  shows "on_order_placed loads repr s tag body =
          \<lparr>state_after = s,
           channel_ops =
             [Publish '''' ''dlq_queue''
                (Dumps (JObj [(''order_id'', JStr uid), (''item'', item), (''qty'', qty),
                              (''student_id'', student_id), (''status'', JStr ''PLACED''),
                              (''error'', JStr (''Invalid qty: '' @ py_str repr qty
                                                 @ '' (must be a positive integer)''))])),
              Ack tag],
           raised = None\<rparr>"
  using assms
  by (auto simp: on_order_placed_def Let_def missing_fields_def dict_get_def to_dead_letter_def)

section \<open>Validation\<close>

text \<open>
  C2. A decoded event in which \<open>order_id\<close> or \<open>item\<close> is empty or absent, or \<open>qty\<close> is
  absent, is published to the dead-letter queue exactly once and acknowledged. Its error
  text is "Missing required field(s): " followed by the names of the missing fields, joined
  by ", " in the order \<open>order_id\<close>, \<open>item\<close>, \<open>qty\<close>. Nothing is assumed about the value of
  \<open>qty\<close> when it is present, so the missing-field check comes before the check that \<open>qty\<close>
  is a positive integer.
\<close>

theorem missing_fields_dead_lettered:
  assumes "loads body = Inr (JObj d)"
    and "\<not> truthy (dict_get d ''order_id'') \<or> \<not> truthy (dict_get d ''item'')
         \<or> dict_get d ''qty'' = JNull"
  shows "on_order_placed loads repr s tag body =
     \<lparr>state_after = s,
      channel_ops =
        [Publish '''' ''dlq_queue''
           (Dumps (JObj (AList.update ''error''
              (JStr (''Missing required field(s): '' @ join '', ''
                 (filter (\<lambda>f. f = ''order_id'' \<and> \<not> truthy (dict_get d ''order_id'')
                             \<or> f = ''item'' \<and> \<not> truthy (dict_get d ''item'')
                             \<or> f = ''qty'' \<and> dict_get d ''qty'' = JNull)
                    [''order_id'', ''item'', ''qty'']))) d))),
         Ack tag],
      raised = None\<rparr>"
proof -
  have "missing_fields d \<noteq> []"
    using assms(2) by (auto simp: missing_fields_def)
  then show ?thesis
    using assms(1)
    by (simp add: on_order_placed_def Let_def to_dead_letter_def missing_fields_filter)
qed

theorem missing_fields_dead_lettered_witness:
  "on_order_placed
     (\<lambda>b. Inr (JObj [(''order_id'', JStr ''bad-002''), (''student_id'', JStr ''bad-student'')]))
     (\<lambda>v. []) \<lparr>inventory = [''burger'' \<mapsto> 100], processed_orders = {}\<rparr> 1 ''body'' =
   \<lparr>state_after = \<lparr>inventory = [''burger'' \<mapsto> 100], processed_orders = {}\<rparr>,
    channel_ops =
      [Publish '''' ''dlq_queue''
         (Dumps (JObj [(''order_id'', JStr ''bad-002''), (''student_id'', JStr ''bad-student''),
                       (''error'', JStr ''Missing required field(s): item, qty'')])),
       Ack 1],
    raised = None\<rparr>
   \<and>
   on_order_placed
     (\<lambda>b. Inr (JObj [(''order_id'', JStr ''bad-003''), (''item'', JStr ''''), (''qty'', JInt 0)]))
     (\<lambda>v. []) \<lparr>inventory = [''burger'' \<mapsto> 100], processed_orders = {}\<rparr> 2 ''body'' =
   \<lparr>state_after = \<lparr>inventory = [''burger'' \<mapsto> 100], processed_orders = {}\<rparr>,
    channel_ops =
      [Publish '''' ''dlq_queue''
         (Dumps (JObj [(''order_id'', JStr ''bad-003''), (''item'', JStr ''''), (''qty'', JInt 0),
                       (''error'', JStr ''Missing required field(s): item'')])),
       Ack 2],
    raised = None\<rparr>"
  using missing_fields_dead_lettered
      [of "\<lambda>b. Inr (JObj [(''order_id'', JStr ''bad-002''), (''student_id'', JStr ''bad-student'')])"
          "''body''" "[(''order_id'', JStr ''bad-002''), (''student_id'', JStr ''bad-student'')]"
          "\<lambda>v. []" "\<lparr>inventory = [''burger'' \<mapsto> 100], processed_orders = {}\<rparr>" 1]
    missing_fields_dead_lettered
      [of "\<lambda>b. Inr (JObj [(''order_id'', JStr ''bad-003''), (''item'', JStr ''''), (''qty'', JInt 0)])"
          "''body''" "[(''order_id'', JStr ''bad-003''), (''item'', JStr ''''), (''qty'', JInt 0)]"
          "\<lambda>v. []" "\<lparr>inventory = [''burger'' \<mapsto> 100], processed_orders = {}\<rparr>" 2]
  by (simp add: dict_get_def)

section \<open>Business rejections\<close>

text \<open>
  C7. For a well-formed OrderEvent that is not a duplicate and whose item is in the
  inventory with less stock than the requested quantity, the handler publishes one
  \<open>inventory.failed\<close> event whose reason is
  "Insufficient stock for '<item>': requested <qty>, available <available>", \<open><available>\<close>
  being the stock at that moment, acknowledges the message, and leaves the inventory and
  the processed set as they were.
\<close>

theorem insufficient_stock_failed:
  assumes "loads body = Inr (JObj d)"
    and "dict_get d ''order_id'' = JStr oid" and "oid \<noteq> []"
    and "dict_get d ''item'' = JStr name" and "name \<noteq> []"
    and "dict_get d ''qty'' = JInt q" and "0 < q"
    and "KStr oid \<notin> processed_orders s"
    and "inventory s name = Some available" and "available < q"
  shows "on_order_placed loads repr s tag body =
     \<lparr>state_after = s,
      channel_ops =
        [Publish EXCHANGE ''inventory.failed''
           (Dumps (JObj [(''order_id'', JStr oid), (''item'', JStr name), (''qty'', JInt q),
              (''status'', JStr ''FAILED''),
              (''reason'', JStr (''Insufficient stock for '' @ [CHR 0x27] @ name @ [CHR 0x27]
                 @ '': requested '' @ str_int q @ '', available '' @ str_int available))])),
         Ack tag],
      raised = None\<rparr>"
  using assms(8-10)
  by (simp add: well_formed_path[of loads body d oid name q, OF assms(1-7)] inventory_failed_def)

theorem insufficient_stock_failed_witness:
  "on_order_placed
     (\<lambda>b. Inr (JObj [(''order_id'', JStr ''o2''), (''item'', JStr ''burger''), (''qty'', JInt 1)]))
     (\<lambda>v. []) \<lparr>inventory = [''burger'' \<mapsto> 0], processed_orders = {KStr ''o1''}\<rparr> 3 ''m'' =
   \<lparr>state_after = \<lparr>inventory = [''burger'' \<mapsto> 0], processed_orders = {KStr ''o1''}\<rparr>,
    channel_ops =
      [Publish ''order_events'' ''inventory.failed''
         (Dumps (JObj [(''order_id'', JStr ''o2''), (''item'', JStr ''burger''), (''qty'', JInt 1),
            (''status'', JStr ''FAILED''),
            (''reason'', JStr ''Insufficient stock for 'burger': requested 1, available 0'')])),
       Ack 3],
    raised = None\<rparr>"
  using insufficient_stock_failed
    [of "\<lambda>b. Inr (JObj [(''order_id'', JStr ''o2''), (''item'', JStr ''burger''), (''qty'', JInt 1)])"
        "''m''" "[(''order_id'', JStr ''o2''), (''item'', JStr ''burger''), (''qty'', JInt 1)]"
        "''o2''" "''burger''" 1
        "\<lparr>inventory = [''burger'' \<mapsto> 0], processed_orders = {KStr ''o1''}\<rparr>" 0 "\<lambda>v. []" 3]
  by (simp add: dict_get_def EXCHANGE_def str_int_def str_nat.simps)

section \<open>Idempotent processing\<close>

text \<open>
  C1, as amended. For a well-formed OrderEvent whose \<open>order_id\<close> is not yet in
  \<open>processed_orders\<close> and whose item has enough stock, two deliveries of the same body
  give, in total, exactly one change of the inventory (the item's stock goes down by the
  quantity) and exactly one published outcome event (\<open>inventory.reserved\<close>): the second
  delivery is only acknowledged and leaves the inventory and \<open>processed_orders\<close> as the
  first delivery left them.
\<close>

theorem reserved_once:
  assumes "loads body = Inr (JObj d)"
    and "dict_get d ''order_id'' = JStr oid" and "oid \<noteq> []"
    and "dict_get d ''item'' = JStr name" and "name \<noteq> []"
    and "dict_get d ''qty'' = JInt q" and "0 < q"
    and "KStr oid \<notin> processed_orders s"
    and "inventory s name = Some available" and "q \<le> available"
  shows "on_order_placed loads repr s tag body =
       \<lparr>state_after =
          s\<lparr>inventory := (inventory s)(name \<mapsto> available - q),
            processed_orders := insert (KStr oid) (processed_orders s)\<rparr>,
        channel_ops =
          [Publish EXCHANGE ''inventory.reserved''
             (Dumps (JObj [(''order_id'', JStr oid), (''item'', JStr name),
                           (''qty'', JInt q), (''status'', JStr ''RESERVED'')])),
           Ack tag],
        raised = None\<rparr>
     \<and> on_order_placed loads repr (state_after (on_order_placed loads repr s tag body)) tag' body =
       \<lparr>state_after = state_after (on_order_placed loads repr s tag body),
        channel_ops = [Ack tag'],
        raised = None\<rparr>"
proof -
  note path = well_formed_path[of loads body d oid name q, OF assms(1-7)]
  have first: "on_order_placed loads repr s tag body =
       \<lparr>state_after =
          s\<lparr>inventory := (inventory s)(name \<mapsto> available - q),
            processed_orders := insert (KStr oid) (processed_orders s)\<rparr>,
        channel_ops =
          [Publish EXCHANGE ''inventory.reserved''
             (Dumps (JObj [(''order_id'', JStr oid), (''item'', JStr name),
                           (''qty'', JInt q), (''status'', JStr ''RESERVED'')])),
           Ack tag],
        raised = None\<rparr>"
    using assms(8-10) by (simp add: path)
  show ?thesis
    by (simp add: first) (simp add: path)
qed

text \<open>
  The claim as stated, for every valid OrderEvent, fails when the order is rejected: with
  no burger in stock, order \<open>o2\<close> for one burger delivered twice is answered by two
  \<open>inventory.failed\<close> events and no change of the inventory.
\<close>

theorem reserved_once_counterexample:
  "channel_ops (on_order_placed
       (\<lambda>b. Inr (JObj [(''order_id'', JStr ''o2''), (''item'', JStr ''burger''), (''qty'', JInt 1)]))
       (\<lambda>v. []) \<lparr>inventory = [''burger'' \<mapsto> 0], processed_orders = {}\<rparr> 1 ''m'')
   @ channel_ops (on_order_placed
       (\<lambda>b. Inr (JObj [(''order_id'', JStr ''o2''), (''item'', JStr ''burger''), (''qty'', JInt 1)]))
       (\<lambda>v. [])
       (state_after (on_order_placed
          (\<lambda>b. Inr (JObj [(''order_id'', JStr ''o2''), (''item'', JStr ''burger''),
                           (''qty'', JInt 1)]))
          (\<lambda>v. []) \<lparr>inventory = [''burger'' \<mapsto> 0], processed_orders = {}\<rparr> 1 ''m''))
       2 ''m'')
   = [Publish ''order_events'' ''inventory.failed''
        (Dumps (JObj [(''order_id'', JStr ''o2''), (''item'', JStr ''burger''), (''qty'', JInt 1),
           (''status'', JStr ''FAILED''),
           (''reason'', JStr ''Insufficient stock for 'burger': requested 1, available 0'')])),
      Ack 1,
      Publish ''order_events'' ''inventory.failed''
        (Dumps (JObj [(''order_id'', JStr ''o2''), (''item'', JStr ''burger''), (''qty'', JInt 1),
           (''status'', JStr ''FAILED''),
           (''reason'', JStr ''Insufficient stock for 'burger': requested 1, available 0'')])),
      Ack 2]
   \<and> state_after (on_order_placed
       (\<lambda>b. Inr (JObj [(''order_id'', JStr ''o2''), (''item'', JStr ''burger''), (''qty'', JInt 1)]))
       (\<lambda>v. [])
       (state_after (on_order_placed
          (\<lambda>b. Inr (JObj [(''order_id'', JStr ''o2''), (''item'', JStr ''burger''),
                           (''qty'', JInt 1)]))
          (\<lambda>v. []) \<lparr>inventory = [''burger'' \<mapsto> 0], processed_orders = {}\<rparr> 1 ''m''))
       2 ''m'')
   = \<lparr>inventory = [''burger'' \<mapsto> 0], processed_orders = {}\<rparr>"
  by (simp add: on_order_placed_def Let_def missing_fields_def dict_get_def dict_find_def
        inventory_failed_def EXCHANGE_def str_int_def str_nat.simps)

theorem reserved_once_witness:
  "on_order_placed
     (\<lambda>b. Inr (JObj [(''order_id'', JStr ''o1''), (''item'', JStr ''burger''), (''qty'', JInt 2)]))
     (\<lambda>v. []) \<lparr>inventory = [''burger'' \<mapsto> 2], processed_orders = {}\<rparr> 7 ''m'' =
   \<lparr>state_after = \<lparr>inventory = [''burger'' \<mapsto> 0], processed_orders = {KStr ''o1''}\<rparr>,
    channel_ops =
      [Publish ''order_events'' ''inventory.reserved''
         (Dumps (JObj [(''order_id'', JStr ''o1''), (''item'', JStr ''burger''),
                       (''qty'', JInt 2), (''status'', JStr ''RESERVED'')])),
       Ack 7],
    raised = None\<rparr>
   \<and> on_order_placed
     (\<lambda>b. Inr (JObj [(''order_id'', JStr ''o1''), (''item'', JStr ''burger''), (''qty'', JInt 2)]))
     (\<lambda>v. []) \<lparr>inventory = [''burger'' \<mapsto> 0], processed_orders = {KStr ''o1''}\<rparr> 8 ''m'' =
   \<lparr>state_after = \<lparr>inventory = [''burger'' \<mapsto> 0], processed_orders = {KStr ''o1''}\<rparr>,
    channel_ops = [Ack 8],
    raised = None\<rparr>"
proof -
  let ?d = "[(''order_id'', JStr ''o1''), (''item'', JStr ''burger''), (''qty'', JInt 2)]"
  let ?loads = "\<lambda>b::string. (Inr (JObj ?d) :: py_error + json)"
  let ?s = "\<lparr>inventory = [''burger'' \<mapsto> (2::int)], processed_orders = {}\<rparr>"
  have twice:
    "on_order_placed ?loads (\<lambda>v. []) ?s 7 ''m'' =
       \<lparr>state_after =
          ?s\<lparr>inventory := (inventory ?s)(''burger'' \<mapsto> 2 - 2),
            processed_orders := insert (KStr ''o1'') (processed_orders ?s)\<rparr>,
        channel_ops =
          [Publish EXCHANGE ''inventory.reserved''
             (Dumps (JObj [(''order_id'', JStr ''o1''), (''item'', JStr ''burger''),
                           (''qty'', JInt 2), (''status'', JStr ''RESERVED'')])),
           Ack 7],
        raised = None\<rparr>
     \<and> on_order_placed ?loads (\<lambda>v. [])
          (state_after (on_order_placed ?loads (\<lambda>v. []) ?s 7 ''m'')) 8 ''m'' =
       \<lparr>state_after = state_after (on_order_placed ?loads (\<lambda>v. []) ?s 7 ''m''),
        channel_ops = [Ack 8],
        raised = None\<rparr>"
    by (rule reserved_once[of ?loads "''m''" ?d "''o1''" "''burger''" 2 ?s 2 _ 7 8])
       (simp_all add: dict_get_def)
  have first: "on_order_placed ?loads (\<lambda>v. []) ?s 7 ''m'' =
      \<lparr>state_after = \<lparr>inventory = [''burger'' \<mapsto> 0], processed_orders = {KStr ''o1''}\<rparr>,
       channel_ops =
         [Publish ''order_events'' ''inventory.reserved''
            (Dumps (JObj [(''order_id'', JStr ''o1''), (''item'', JStr ''burger''),
                          (''qty'', JInt 2), (''status'', JStr ''RESERVED'')])),
          Ack 7],
       raised = None\<rparr>"
    using twice[THEN conjunct1] by (simp add: EXCHANGE_def)
  show ?thesis
    using twice[THEN conjunct2] by (simp add: first)
qed

section \<open>The inventory never goes negative\<close>

text \<open>
  C3. If no quantity of the inventory is negative, none is after any sequence of delivered
  messages, whatever their bodies. And a delivery changes the inventory only on the path
  that publishes \<open>inventory.reserved\<close>: there the quantity is a positive integer, the stock
  of the item is at least the quantity, and the stock goes down by it.
\<close>

theorem ledger_never_negative:
  assumes "\<forall>i n. inventory s i = Some n \<longrightarrow> 0 \<le> n"
  shows "(\<forall>i n. inventory (start_consuming loads repr s msgs) i = Some n \<longrightarrow> 0 \<le> n)
    \<and> (inventory (state_after (on_order_placed loads repr s1 tag body)) \<noteq> inventory s1 \<longrightarrow>
        (\<exists>d name available q.
           loads body = Inr (JObj d) \<and> dict_get d ''item'' = JStr name
           \<and> as_int (dict_get d ''qty'') = Some q \<and> 0 < q
           \<and> inventory s1 name = Some available \<and> q \<le> available
           \<and> inventory (state_after (on_order_placed loads repr s1 tag body)) =
               (inventory s1)(name \<mapsto> available - q)
           \<and> channel_ops (on_order_placed loads repr s1 tag body) =
               [Publish EXCHANGE ''inventory.reserved''
                  (Dumps (JObj [(''order_id'', dict_get d ''order_id''),
                                (''item'', dict_get d ''item''),
                                (''qty'', dict_get d ''qty''),
                                (''status'', JStr ''RESERVED'')])),
                Ack tag]))"
proof
  show "\<forall>i n. inventory (start_consuming loads repr s msgs) i = Some n \<longrightarrow> 0 \<le> n"
    by (rule start_consuming_non_negative[OF assms])
next
  show "inventory (state_after (on_order_placed loads repr s1 tag body)) \<noteq> inventory s1 \<longrightarrow>
        (\<exists>d name available q.
           loads body = Inr (JObj d) \<and> dict_get d ''item'' = JStr name
           \<and> as_int (dict_get d ''qty'') = Some q \<and> 0 < q
           \<and> inventory s1 name = Some available \<and> q \<le> available
           \<and> inventory (state_after (on_order_placed loads repr s1 tag body)) =
               (inventory s1)(name \<mapsto> available - q)
           \<and> channel_ops (on_order_placed loads repr s1 tag body) =
               [Publish EXCHANGE ''inventory.reserved''
                  (Dumps (JObj [(''order_id'', dict_get d ''order_id''),
                                (''item'', dict_get d ''item''),
                                (''qty'', dict_get d ''qty''),
                                (''status'', JStr ''RESERVED'')])),
                Ack tag])"
    using state_after_cases[of loads repr s1 tag body] by force
qed

theorem ledger_never_negative_witness:
  "inventory
     (start_consuming
        (\<lambda>b. if b = ''m1'' then
                Inr (JObj [(''order_id'', JStr ''o1''), (''item'', JStr ''burger''), (''qty'', JInt 2)])
              else if b = ''m2'' then
                Inr (JObj [(''order_id'', JStr ''o2''), (''item'', JStr ''burger''), (''qty'', JInt 1)])
              else Inl JSONDecodeError)
        (\<lambda>v. []) \<lparr>inventory = [''burger'' \<mapsto> 2], processed_orders = {}\<rparr>
        [(7, ''m1''), (8, ''m1''), (9, ''m2''), (10, ''{not json'')])
     ''burger'' = Some 0
   \<and> inventory
       (state_after (on_order_placed
          (\<lambda>b. if b = ''m1'' then
                  Inr (JObj [(''order_id'', JStr ''o1''), (''item'', JStr ''burger''),
                             (''qty'', JInt 2)])
                else if b = ''m2'' then
                  Inr (JObj [(''order_id'', JStr ''o2''), (''item'', JStr ''burger''),
                             (''qty'', JInt 1)])
                else Inl JSONDecodeError)
          (\<lambda>v. []) \<lparr>inventory = [''burger'' \<mapsto> 2], processed_orders = {}\<rparr> 7 ''m1''))
       ''burger'' = Some 0"
proof -
  let ?o1 = "[(''order_id'', JStr ''o1''), (''item'', JStr ''burger''), (''qty'', JInt 2)]"
  let ?o2 = "[(''order_id'', JStr ''o2''), (''item'', JStr ''burger''), (''qty'', JInt 1)]"
  let ?loads = "\<lambda>b::string. if b = ''m1'' then Inr (JObj ?o1)
                 else if b = ''m2'' then Inr (JObj ?o2)
                 else (Inl JSONDecodeError :: py_error + json)"
  let ?s = "\<lparr>inventory = [''burger'' \<mapsto> (2::int)], processed_orders = {}\<rparr>"
  let ?msgs = "[(7::nat, ''m1''), (8, ''m1''), (9, ''m2''), (10, ''{not json'')]"
  have start: "\<forall>i n. inventory ?s i = Some n \<longrightarrow> 0 \<le> n"
    by (simp split: if_splits)
  have run: "inventory (start_consuming ?loads (\<lambda>v. []) ?s ?msgs) ''burger'' = Some 0"
    by (simp add: on_order_placed_def Let_def missing_fields_def dict_get_def dict_find_def
          inventory_failed_def)
  have step: "inventory (state_after (on_order_placed ?loads (\<lambda>v. []) ?s 7 ''m1'')) ''burger''
                = Some 0"
    by (simp add: on_order_placed_def Let_def missing_fields_def dict_get_def dict_find_def)
  then have changed:
    "inventory (state_after (on_order_placed ?loads (\<lambda>v. []) ?s 7 ''m1'')) \<noteq> inventory ?s"
    by (auto simp: fun_eq_iff)
  from ledger_never_negative[OF start, where loads = ?loads and repr = "\<lambda>v. []"
      and msgs = ?msgs and ?s1.0 = ?s and tag = 7 and body = "''m1''"]
    run step changed
  show ?thesis by simp
qed

section \<open>The dead-letter queue\<close>




text \<open>
  C6. A delivery that publishes to the dead-letter queue, on a decode failure or on a
  validation failure, adds nothing to \<open>processed_orders\<close> and changes no quantity of the
  inventory. Any later delivery, a corrected one with the same \<open>order_id\<close> among them, is
  therefore handled exactly as if the dead-lettered message had never arrived.
\<close>

theorem dead_letter_leaves_state:
  assumes "Publish '''' ''dlq_queue'' p \<in> set (channel_ops (on_order_placed loads repr s tag body))"
  shows "processed_orders (state_after (on_order_placed loads repr s tag body)) = processed_orders s
     \<and> inventory (state_after (on_order_placed loads repr s tag body)) = inventory s
     \<and> on_order_placed loads repr (state_after (on_order_placed loads repr s tag body)) tag' body'
         = on_order_placed loads repr s tag' body'"
  using dlq_publish_cases[OF assms] by simp

theorem dead_letter_leaves_state_witness:
  "state_after (on_order_placed
      (\<lambda>b. if b = ''bad'' then
              Inr (JObj [(''order_id'', JStr ''bad-001''), (''item'', JStr ''burger'')])
            else
              Inr (JObj [(''order_id'', JStr ''bad-001''), (''item'', JStr ''burger''),
                         (''qty'', JInt 1)]))
      (\<lambda>v. []) \<lparr>inventory = [''burger'' \<mapsto> 3], processed_orders = {}\<rparr> 7 ''bad'')
   = \<lparr>inventory = [''burger'' \<mapsto> 3], processed_orders = {}\<rparr>
   \<and> channel_ops (on_order_placed
      (\<lambda>b. if b = ''bad'' then
              Inr (JObj [(''order_id'', JStr ''bad-001''), (''item'', JStr ''burger'')])
            else
              Inr (JObj [(''order_id'', JStr ''bad-001''), (''item'', JStr ''burger''),
                         (''qty'', JInt 1)]))
      (\<lambda>v. [])
      (state_after (on_order_placed
         (\<lambda>b. if b = ''bad'' then
                 Inr (JObj [(''order_id'', JStr ''bad-001''), (''item'', JStr ''burger'')])
               else
                 Inr (JObj [(''order_id'', JStr ''bad-001''), (''item'', JStr ''burger''),
                            (''qty'', JInt 1)]))
         (\<lambda>v. []) \<lparr>inventory = [''burger'' \<mapsto> 3], processed_orders = {}\<rparr> 7 ''bad''))
      8 ''good'')
   = [Publish ''order_events'' ''inventory.reserved''
        (Dumps (JObj [(''order_id'', JStr ''bad-001''), (''item'', JStr ''burger''),
                      (''qty'', JInt 1), (''status'', JStr ''RESERVED'')])),
      Ack 8]"
proof -
  let ?bad = "[(''order_id'', JStr ''bad-001''), (''item'', JStr ''burger'')]"
  let ?good = "[(''order_id'', JStr ''bad-001''), (''item'', JStr ''burger''), (''qty'', JInt 1)]"
  let ?loads = "\<lambda>b::string. if b = ''bad'' then Inr (JObj ?bad)
                 else (Inr (JObj ?good) :: py_error + json)"
  let ?s = "\<lparr>inventory = [''burger'' \<mapsto> (3::int)], processed_orders = {}\<rparr>"
  let ?p = "Dumps (JObj (?bad @ [(''error'', JStr ''Missing required field(s): qty'')]))"
  have "channel_ops (on_order_placed ?loads (\<lambda>v. []) ?s 7 ''bad'')
      = [Publish '''' ''dlq_queue'' ?p, Ack 7]"
    by (simp add: on_order_placed_def Let_def missing_fields_def dict_get_def to_dead_letter_def)
  then have routed: "Publish '''' ''dlq_queue'' ?p
      \<in> set (channel_ops (on_order_placed ?loads (\<lambda>v. []) ?s 7 ''bad''))"
    by simp
  note same = dead_letter_leaves_state[OF routed, of 8 "''good''"]
  have fields: "processed_orders (state_after (on_order_placed ?loads (\<lambda>v. []) ?s 7 ''bad'')) = {}"
    "inventory (state_after (on_order_placed ?loads (\<lambda>v. []) ?s 7 ''bad'')) = [''burger'' \<mapsto> 3]"
    using same by simp_all
  have unchanged: "state_after (on_order_placed ?loads (\<lambda>v. []) ?s 7 ''bad'') = ?s"
    using fields by (cases "state_after (on_order_placed ?loads (\<lambda>v. []) ?s 7 ''bad'')") simp
  have again: "channel_ops (on_order_placed ?loads (\<lambda>v. []) ?s 8 ''good'')
     = [Publish ''order_events'' ''inventory.reserved''
        (Dumps (JObj [(''order_id'', JStr ''bad-001''), (''item'', JStr ''burger''),
                      (''qty'', JInt 1), (''status'', JStr ''RESERVED'')])),
        Ack 8]"
    by (simp add: on_order_placed_def Let_def missing_fields_def dict_get_def dict_find_def
          EXCHANGE_def)
  show ?thesis
    using again by (simp add: unchanged)
qed

section \<open>Rejected orders are not marked processed\<close>

text \<open>
  C5. For a well-formed OrderEvent that is not a duplicate and whose item is not in the
  inventory, or is there with less stock than the requested quantity, the handler publishes
  one \<open>inventory.failed\<close> event, acknowledges, and leaves the state as it was: the
  \<open>order_id\<close> is not added to \<open>processed_orders\<close>. A later delivery with the same
  \<open>order_id\<close>, corrected so that its item is in stock, is then reserved like any new order
  instead of being skipped as a duplicate.
\<close>

theorem rejection_not_processed:
  assumes "loads body = Inr (JObj d)"
    and "dict_get d ''order_id'' = JStr oid" and "oid \<noteq> []"
    and "dict_get d ''item'' = JStr name" and "name \<noteq> []"
    and "dict_get d ''qty'' = JInt q" and "0 < q"
    and "KStr oid \<notin> processed_orders s"
    and "inventory s name = None \<or> (\<exists>available. inventory s name = Some available \<and> available < q)"
    and "loads body' = Inr (JObj d')"
    and "dict_get d' ''order_id'' = JStr oid"
    and "dict_get d' ''item'' = JStr name'" and "name' \<noteq> []"
    and "dict_get d' ''qty'' = JInt q'" and "0 < q'"
    and "inventory s name' = Some available'" and "q' \<le> available'"
  shows "(\<exists>reason. channel_ops (on_order_placed loads repr s tag body) =
            [Publish EXCHANGE ''inventory.failed''
               (Dumps (JObj [(''order_id'', JStr oid), (''item'', JStr name), (''qty'', JInt q),
                             (''status'', JStr ''FAILED''), (''reason'', JStr reason)])),
             Ack tag])
     \<and> state_after (on_order_placed loads repr s tag body) = s
     \<and> KStr oid \<notin> processed_orders (state_after (on_order_placed loads repr s tag body))
     \<and> channel_ops (on_order_placed loads repr
          (state_after (on_order_placed loads repr s tag body)) tag' body') =
            [Publish EXCHANGE ''inventory.reserved''
               (Dumps (JObj [(''order_id'', JStr oid), (''item'', JStr name'),
                             (''qty'', JInt q'), (''status'', JStr ''RESERVED'')])),
             Ack tag']"
proof -
  note path = well_formed_path[of loads body d oid name q, OF assms(1-7)]
  note path' = well_formed_path[of loads body' d' oid name' q',
      OF assms(10) assms(11) assms(3) assms(12-15)]
  have same: "state_after (on_order_placed loads repr s tag body) = s"
    using assms(8,9) by (auto simp: path inventory_failed_def)
  have failed: "\<exists>reason. channel_ops (on_order_placed loads repr s tag body) =
            [Publish EXCHANGE ''inventory.failed''
               (Dumps (JObj [(''order_id'', JStr oid), (''item'', JStr name), (''qty'', JInt q),
                             (''status'', JStr ''FAILED''), (''reason'', JStr reason)])),
             Ack tag]"
    using assms(8,9) by (auto simp: path inventory_failed_def)
  have later: "channel_ops (on_order_placed loads repr s tag' body') =
            [Publish EXCHANGE ''inventory.reserved''
               (Dumps (JObj [(''order_id'', JStr oid), (''item'', JStr name'),
                             (''qty'', JInt q'), (''status'', JStr ''RESERVED'')])),
             Ack tag']"
    using assms(8,16,17) by (simp add: path')
  show ?thesis
    using failed later assms(8) by (simp add: same)
qed

theorem rejection_not_processed_witness:
  "channel_ops (on_order_placed
      (\<lambda>b. if b = ''m1'' then
              Inr (JObj [(''order_id'', JStr ''o9''), (''item'', JStr ''taco''), (''qty'', JInt 1)])
            else
              Inr (JObj [(''order_id'', JStr ''o9''), (''item'', JStr ''burger''), (''qty'', JInt 1)]))
      (\<lambda>v. []) \<lparr>inventory = [''burger'' \<mapsto> 3], processed_orders = {}\<rparr> 7 ''m1'')
   = [Publish ''order_events'' ''inventory.failed''
        (Dumps (JObj [(''order_id'', JStr ''o9''), (''item'', JStr ''taco''), (''qty'', JInt 1),
           (''status'', JStr ''FAILED''),
           (''reason'', JStr ''Item 'taco' not found in inventory'')])),
      Ack 7]
   \<and> channel_ops (on_order_placed
      (\<lambda>b. if b = ''m1'' then
              Inr (JObj [(''order_id'', JStr ''o9''), (''item'', JStr ''taco''), (''qty'', JInt 1)])
            else
              Inr (JObj [(''order_id'', JStr ''o9''), (''item'', JStr ''burger''), (''qty'', JInt 1)]))
      (\<lambda>v. [])
      (state_after (on_order_placed
         (\<lambda>b. if b = ''m1'' then
                 Inr (JObj [(''order_id'', JStr ''o9''), (''item'', JStr ''taco''),
                            (''qty'', JInt 1)])
               else
                 Inr (JObj [(''order_id'', JStr ''o9''), (''item'', JStr ''burger''),
                            (''qty'', JInt 1)]))
         (\<lambda>v. []) \<lparr>inventory = [''burger'' \<mapsto> 3], processed_orders = {}\<rparr> 7 ''m1''))
      8 ''m2'')
   = [Publish ''order_events'' ''inventory.reserved''
        (Dumps (JObj [(''order_id'', JStr ''o9''), (''item'', JStr ''burger''),
                      (''qty'', JInt 1), (''status'', JStr ''RESERVED'')])),
      Ack 8]"
proof -
  let ?d1 = "[(''order_id'', JStr ''o9''), (''item'', JStr ''taco''), (''qty'', JInt 1)]"
  let ?d2 = "[(''order_id'', JStr ''o9''), (''item'', JStr ''burger''), (''qty'', JInt 1)]"
  let ?loads = "\<lambda>b::string. if b = ''m1'' then Inr (JObj ?d1)
                 else (Inr (JObj ?d2) :: py_error + json)"
  let ?s = "\<lparr>inventory = [''burger'' \<mapsto> (3::int)], processed_orders = {}\<rparr>"
  have first: "channel_ops (on_order_placed ?loads (\<lambda>v. []) ?s 7 ''m1'')
     = [Publish ''order_events'' ''inventory.failed''
        (Dumps (JObj [(''order_id'', JStr ''o9''), (''item'', JStr ''taco''), (''qty'', JInt 1),
           (''status'', JStr ''FAILED''),
           (''reason'', JStr ''Item 'taco' not found in inventory'')])),
        Ack 7]"
    by (simp add: on_order_placed_def Let_def missing_fields_def dict_get_def dict_find_def
          inventory_failed_def EXCHANGE_def)
  have "(\<exists>reason. channel_ops (on_order_placed ?loads (\<lambda>v. []) ?s 7 ''m1'') =
            [Publish EXCHANGE ''inventory.failed''
               (Dumps (JObj [(''order_id'', JStr ''o9''), (''item'', JStr ''taco''),
                             (''qty'', JInt 1),
                             (''status'', JStr ''FAILED''), (''reason'', JStr reason)])),
             Ack 7])
     \<and> state_after (on_order_placed ?loads (\<lambda>v. []) ?s 7 ''m1'') = ?s
     \<and> KStr ''o9'' \<notin> processed_orders (state_after (on_order_placed ?loads (\<lambda>v. []) ?s 7 ''m1''))
     \<and> channel_ops (on_order_placed ?loads (\<lambda>v. [])
          (state_after (on_order_placed ?loads (\<lambda>v. []) ?s 7 ''m1'')) 8 ''m2'') =
            [Publish EXCHANGE ''inventory.reserved''
               (Dumps (JObj [(''order_id'', JStr ''o9''), (''item'', JStr ''burger''),
                             (''qty'', JInt 1), (''status'', JStr ''RESERVED'')])),
             Ack 8]"
    by (rule rejection_not_processed[where loads = ?loads and body = "''m1''" and d = ?d1
          and oid = "''o9''" and name = "''taco''" and q = 1 and s = ?s and body' = "''m2''"
          and d' = ?d2 and name' = "''burger''" and q' = 1 and available' = 3])
       (simp_all add: dict_get_def)
  then have later: "channel_ops (on_order_placed ?loads (\<lambda>v. [])
          (state_after (on_order_placed ?loads (\<lambda>v. []) ?s 7 ''m1'')) 8 ''m2'') =
            [Publish ''order_events'' ''inventory.reserved''
               (Dumps (JObj [(''order_id'', JStr ''o9''), (''item'', JStr ''burger''),
                             (''qty'', JInt 1), (''status'', JStr ''RESERVED'')])),
             Ack 8]"
    unfolding EXCHANGE_def by (elim conjE)
  show ?thesis
    by (rule conjI) (rule first, rule later)
qed

section \<open>Acknowledgment after the publish\<close>

text \<open>
  C8. Every consumed message is to be acknowledged exactly once, after its outcome publish
  or its dead-letter routing. The RabbitMQ handler does not do so for three kinds of
  malformed message: a body that is valid JSON but not an object (\<open>data.get\<close> raises
  \<open>AttributeError\<close>), a body that is not UTF-8 (\<open>json.loads\<close> raises \<open>UnicodeDecodeError\<close>,
  which \<open>except json.JSONDecodeError\<close> does not catch) and an event whose \<open>order_id\<close> is a
  list (\<open>in\<close> raises \<open>TypeError\<close>). Each call raises before any publish or acknowledgment:
  the message is neither dead-lettered nor acknowledged.
\<close>

theorem malformed_message_never_acked:
  "on_order_placed (\<lambda>b. Inr (JArr [JInt 1, JInt 2])) (\<lambda>v. [])
      \<lparr>inventory = [''burger'' \<mapsto> 100], processed_orders = {}\<rparr> 7 ''[1, 2]''
     = \<lparr>state_after = \<lparr>inventory = [''burger'' \<mapsto> 100], processed_orders = {}\<rparr>,
        channel_ops = [], raised = Some AttributeError\<rparr>
   \<and> on_order_placed (\<lambda>b. Inl UnicodeDecodeError) (\<lambda>v. [])
      \<lparr>inventory = [''burger'' \<mapsto> 100], processed_orders = {}\<rparr> 8 [CHR 0xFF]
     = \<lparr>state_after = \<lparr>inventory = [''burger'' \<mapsto> 100], processed_orders = {}\<rparr>,
        channel_ops = [], raised = Some UnicodeDecodeError\<rparr>
   \<and> on_order_placed
      (\<lambda>b. Inr (JObj [(''order_id'', JArr [JInt 1]), (''item'', JStr ''burger''),
                       (''qty'', JInt 1)]))
      (\<lambda>v. []) \<lparr>inventory = [''burger'' \<mapsto> 100], processed_orders = {}\<rparr> 9 ''m''
     = \<lparr>state_after = \<lparr>inventory = [''burger'' \<mapsto> 100], processed_orders = {}\<rparr>,
        channel_ops = [], raised = Some TypeError\<rparr>"
  by (simp add: on_order_placed_def Let_def missing_fields_def dict_get_def)

section \<open>Only the ordered item changes\<close>

text \<open>
  C9. Handling one message changes the stock of no item other than the one the message
  names: if the quantity stored for \<open>i\<close> differs after the call, the body decodes to a dict
  whose item field is the string \<open>i\<close>. This holds for the RabbitMQ handler (field
  \<open>item\<close>) and for the Kafka consumer (field \<open>item_id\<close>).
\<close>

theorem only_named_item_changes:
  "(inventory (state_after (on_order_placed loads repr s tag body)) i \<noteq> inventory s i \<longrightarrow>
      (\<exists>d. loads body = Inr (JObj d) \<and> dict_get d ''item'' = JStr i))
   \<and> (stock_after (main_iteration rt event_id event_time stock val) i \<noteq> stock i \<longrightarrow>
      (\<exists>raw event. val = Some raw \<and> json_loads rt raw = Inr (JObj event)
          \<and> map_of event ''item_id'' = Some (JStr i)))"
proof
  show "inventory (state_after (on_order_placed loads repr s tag body)) i \<noteq> inventory s i \<longrightarrow>
      (\<exists>d. loads body = Inr (JObj d) \<and> dict_get d ''item'' = JStr i)"
  proof (cases rule: on_order_placed_cases[of loads body repr s tag])
    case (reserved d q oid name available)
    then show ?thesis by (auto split: if_splits)
  qed (simp_all add: to_dead_letter_def inventory_failed_def)
next
  show "stock_after (main_iteration rt event_id event_time stock val) i \<noteq> stock i \<longrightarrow>
      (\<exists>raw event. val = Some raw \<and> json_loads rt raw = Inr (JObj event)
          \<and> map_of event ''item_id'' = Some (JStr i))"
    using main_iteration_cases[of rt event_id event_time stock val]
    by (auto split: if_splits)
qed

theorem only_named_item_changes_witness:
  "inventory (state_after (on_order_placed
      (\<lambda>b. Inr (JObj [(''order_id'', JStr ''o1''), (''item'', JStr ''burger''), (''qty'', JInt 2)]))
      (\<lambda>v. []) \<lparr>inventory = [''burger'' \<mapsto> 100, ''pizza'' \<mapsto> 50], processed_orders = {}\<rparr>
      7 ''m'')) ''pizza'' = Some 50
   \<and> inventory (state_after (on_order_placed
      (\<lambda>b. Inr (JObj [(''order_id'', JStr ''o1''), (''item'', JStr ''burger''), (''qty'', JInt 2)]))
      (\<lambda>v. []) \<lparr>inventory = [''burger'' \<mapsto> 100, ''pizza'' \<mapsto> 50], processed_orders = {}\<rparr>
      7 ''m'')) ''burger'' = Some 98
   \<and> stock_after (main_iteration
        \<lparr>json_loads = (\<lambda>b. Inr (JObj [(''event_type'', JStr ''OrderPlaced''),
            (''order_id'', JStr ''k1''), (''item_id'', JStr ''taco''), (''qty'', JInt 3)])),
         int_of_str = (\<lambda>t. None), exc_str = (\<lambda>e. []), decode_replace = (\<lambda>b. b)\<rparr>
        ''id-1'' ''2026-01-01T00:00:00Z'' [''taco'' \<mapsto> 5000, ''pizza'' \<mapsto> 5000] (Some ''m''))
      ''pizza'' = Some 5000
   \<and> stock_after (main_iteration
        \<lparr>json_loads = (\<lambda>b. Inr (JObj [(''event_type'', JStr ''OrderPlaced''),
            (''order_id'', JStr ''k1''), (''item_id'', JStr ''taco''), (''qty'', JInt 3)])),
         int_of_str = (\<lambda>t. None), exc_str = (\<lambda>e. []), decode_replace = (\<lambda>b. b)\<rparr>
        ''id-1'' ''2026-01-01T00:00:00Z'' [''taco'' \<mapsto> 5000, ''pizza'' \<mapsto> 5000] (Some ''m''))
      ''taco'' = Some 4997"
proof -
  let ?d = "[(''order_id'', JStr ''o1''), (''item'', JStr ''burger''), (''qty'', JInt 2)]"
  let ?loads = "\<lambda>b::string. (Inr (JObj ?d) :: py_error + json)"
  let ?s = "\<lparr>inventory = [''burger'' \<mapsto> (100::int), ''pizza'' \<mapsto> 50], processed_orders = {}\<rparr>"
  let ?ev = "[(''event_type'', JStr ''OrderPlaced''),
            (''order_id'', JStr ''k1''), (''item_id'', JStr ''taco''), (''qty'', JInt 3)]"
  let ?rt = "\<lparr>json_loads = (\<lambda>b::string. (Inr (JObj ?ev) :: py_error + json)),
         int_of_str = (\<lambda>t. None), exc_str = (\<lambda>e. []), decode_replace = (\<lambda>b. b)\<rparr>"
  let ?stock = "[''taco'' \<mapsto> (5000::int), ''pizza'' \<mapsto> 5000]"
  note inst = only_named_item_changes[of ?loads "\<lambda>v. []" ?s 7 "''m''" "''pizza''" ?rt "''id-1''"
      "''2026-01-01T00:00:00Z''" ?stock "Some ''m''"]
  have pizza: "inventory (state_after (on_order_placed ?loads (\<lambda>v. []) ?s 7 ''m'')) ''pizza''
      = Some 50"
    using inst[THEN conjunct1] by (auto simp: dict_get_def)
  have kpizza: "stock_after (main_iteration ?rt ''id-1'' ''2026-01-01T00:00:00Z'' ?stock
      (Some ''m'')) ''pizza'' = Some 5000"
    using inst[THEN conjunct2] by auto
  have burger: "inventory (state_after (on_order_placed ?loads (\<lambda>v. []) ?s 7 ''m'')) ''burger''
      = Some 98"
    by (simp add: on_order_placed_def Let_def missing_fields_def dict_get_def dict_find_def)
  have taco: "stock_after (main_iteration ?rt ''id-1'' ''2026-01-01T00:00:00Z'' ?stock
      (Some ''m'')) ''taco'' = Some 4997"
    by (simp add: main_iteration_def produce_result_def Let_def dict_get_def dict_find_def)
  show ?thesis
    using pizza burger kpizza taco by simp
qed

section \<open>The front door checks presence only\<close>

text \<open>
  C10. A present \<open>qty\<close> that is not an integer is to be accepted by the front door with
  201 and dead-lettered later by the quantity check of the inventory service. For the JSON
  boolean \<open>true\<close> the front door does its part, answering 201 and publishing the order,
  but the inventory service does not: its check \<open>isinstance(qty, int)\<close> holds of \<open>True\<close>,
  which then counts as the quantity 1, so one burger is reserved and
  \<open>inventory.reserved\<close> is published instead of a dead letter.
\<close>

theorem boolean_qty_reserved:
  "response (place_order Map.empty ''u-1'' Delivered
      (JObj [(''item'', JStr ''burger''), (''qty'', JBool True)]))
     = Inr (201, JObj [(''order_id'', JStr ''u-1''), (''status'', JStr ''PLACED'')])
   \<and> published (place_order Map.empty ''u-1'' Delivered
      (JObj [(''item'', JStr ''burger''), (''qty'', JBool True)]))
     = [Publish ''order_events'' ''order.placed''
          (Dumps (JObj [(''order_id'', JStr ''u-1''), (''item'', JStr ''burger''),
                        (''qty'', JBool True), (''student_id'', JStr ''unknown''),
                        (''status'', JStr ''PLACED'')]))]
   \<and> on_order_placed
        (\<lambda>b. Inr (JObj [(''order_id'', JStr ''u-1''), (''item'', JStr ''burger''),
                         (''qty'', JBool True), (''student_id'', JStr ''unknown''),
                         (''status'', JStr ''PLACED'')]))
        (\<lambda>v. []) \<lparr>inventory = [''burger'' \<mapsto> 100], processed_orders = {}\<rparr> 7 ''m''
     = \<lparr>state_after = \<lparr>inventory = [''burger'' \<mapsto> 99], processed_orders = {KStr ''u-1''}\<rparr>,
        channel_ops =
          [Publish ''order_events'' ''inventory.reserved''
             (Dumps (JObj [(''order_id'', JStr ''u-1''), (''item'', JStr ''burger''),
                           (''qty'', JBool True), (''status'', JStr ''RESERVED'')])),
           Ack 7],
        raised = None\<rparr>"
  by (simp add: place_order_def on_order_placed_def Let_def missing_fields_def dict_get_def
        dict_find_def EXCHANGE_def)

theorem boolean_qty_reserved_witness:
  "inventory (state_after (on_order_placed
        (\<lambda>b. Inr (JObj [(''order_id'', JStr ''u-1''), (''item'', JStr ''burger''),
                         (''qty'', JBool True), (''student_id'', JStr ''unknown''),
                         (''status'', JStr ''PLACED'')]))
        (\<lambda>v. []) \<lparr>inventory = [''burger'' \<mapsto> 100], processed_orders = {}\<rparr> 7 ''m''))
     ''burger'' = Some 99"
  using boolean_qty_reserved[THEN conjunct2, THEN conjunct2] by simp

end
